theory Spec2Isabelle
  imports Complex_Main
begin

section \<open>Data model\<close>

text \<open>
  The handlers of \<^verbatim>\<open>app/api/routes/organisations.py\<close> work on two tables through an
  object-relational session. The table classes \<^verbatim>\<open>Organisation\<close>, \<^verbatim>\<open>Location\<close> and the request
  class \<^verbatim>\<open>CreateOrganisation\<close> live in \<^verbatim>\<open>app.models\<close>; only their use is visible in the
  handlers (\<^verbatim>\<open>Organisation(name=...)\<close>, \<^verbatim>\<open>Location(name=..., latitude=..., longitude=...,
  organisation_id=...)\<close>, \<^verbatim>\<open>create_organisation.name\<close>), and the records below carry exactly
  the attributes used there plus the primary key. A primary key is \<open>None\<close> on an object that
  has not been stored yet. Python's \<^verbatim>\<open>float\<close> coordinates are modelled as \<open>real\<close>: the
  handlers only store and compare them.
\<close>

record organisation =
  org_id :: "int option"
  org_name :: string

record location =
  loc_id :: "int option"
  loc_name :: string
  latitude :: real
  longitude :: real
  organisation_id :: int

record CreateOrganisation =
  co_name :: string

record CreateLocation =
  cl_name :: string
  cl_latitude :: real
  cl_longitude :: real
  cl_organisation_id :: int

text \<open>The rows of the two tables, in storage order.\<close>

record db =
  organisations :: "organisation list"
  locations :: "location list"

definition empty_db :: db where
  "empty_db = \<lparr>organisations = [], locations = []\<rparr>"

text \<open>
  \<^verbatim>\<open>HTTPException(status_code=..., detail=...)\<close>. An exception of the session itself is not
  an \<^verbatim>\<open>HTTPException\<close>; it leaves the handler as a generic server error.
\<close>

datatype http_error =
  HTTPException (status_code: nat) (detail: string)
  | ServerError

definition HTTP_404_NOT_FOUND :: nat where
  "HTTP_404_NOT_FOUND = 404"

section \<open>The session\<close>

text \<open>
  Modelled from the spec: the primary keys given out by the store (\<^verbatim>\<open>app.db\<close> and
  \<^verbatim>\<open>app.models\<close> are not among the sources). The spec calls the identifier server-assigned
  and unique; the model takes the successor of the largest key of the table, and 1 for an
  empty table.
\<close>

definition next_id :: "int list \<Rightarrow> int" where
  "next_id ids = (if ids = [] then 1 else fold max ids (hd ids) + 1)"

definition organisation_ids :: "db \<Rightarrow> int list" where
  "organisation_ids session = List.map_filter org_id (organisations session)"

definition location_ids :: "db \<Rightarrow> int list" where
  "location_ids session = List.map_filter loc_id (locations session)"

text \<open>\<^verbatim>\<open>session.get(Organisation, organisation_id)\<close>: the row with that primary key, or \<open>None\<close>.\<close>

definition session_get_organisation :: "db \<Rightarrow> int \<Rightarrow> organisation option" where
  "session_get_organisation session k = find (\<lambda>row. org_id row = Some k) (organisations session)"

definition session_get_location :: "db \<Rightarrow> int \<Rightarrow> location option" where
  "session_get_location session k = find (\<lambda>row. loc_id row = Some k) (locations session)"

text \<open>
  \<^verbatim>\<open>session.add(x); session.commit()\<close>: the pending object is written as a new row, which
  gives it its primary key. The object with the key set is returned beside the new table.
\<close>

definition session_add_commit_organisation :: "organisation \<Rightarrow> db \<Rightarrow> organisation \<times> db" where
  "session_add_commit_organisation x session =
     (let row = x\<lparr>org_id := Some (next_id (organisation_ids session))\<rparr>
      in (row, session\<lparr>organisations := organisations session @ [row]\<rparr>))"

definition session_add_commit_location :: "location \<Rightarrow> db \<Rightarrow> location \<times> db" where
  "session_add_commit_location x session =
     (let row = x\<lparr>loc_id := Some (next_id (location_ids session))\<rparr>
      in (row, session\<lparr>locations := locations session @ [row]\<rparr>))"

text \<open>
  \<^verbatim>\<open>session.refresh(x)\<close>: the attributes of \<^verbatim>\<open>x\<close> are read again from its row, found by
  primary key; the session raises when there is no such row.
\<close>

definition session_refresh_organisation :: "organisation \<Rightarrow> db \<Rightarrow> organisation option" where
  "session_refresh_organisation x session =
     (case org_id x of None \<Rightarrow> None | Some k \<Rightarrow> session_get_organisation session k)"

definition session_refresh_location :: "location \<Rightarrow> db \<Rightarrow> location option" where
  "session_refresh_location x session =
     (case loc_id x of None \<Rightarrow> None | Some k \<Rightarrow> session_get_location session k)"

text \<open>
  A \<^verbatim>\<open>select(Location)\<close> statement is the list of its \<^verbatim>\<open>where\<close> criteria, each call of
  \<^verbatim>\<open>.where(...)\<close> adding its arguments; \<^verbatim>\<open>session.exec(query).all()\<close> returns the rows that
  meet every criterion, in storage order.
\<close>

type_synonym 'row query = "('row \<Rightarrow> bool) list"

definition select :: "'row query" where
  "select = []"

definition where_clause :: "'row query \<Rightarrow> ('row \<Rightarrow> bool) list \<Rightarrow> 'row query" where
  "where_clause query criteria = query @ criteria"

definition session_exec_all :: "'row list \<Rightarrow> 'row query \<Rightarrow> 'row list" where
  "session_exec_all table query = filter (\<lambda>row. list_all (\<lambda>criterion. criterion row) query) table"

section \<open>The request handlers\<close>

text \<open>
  Every handler takes the session of its request and returns its outcome, an error or
  the response value, beside the store it leaves behind.
\<close>

definition create_organisation ::
  "CreateOrganisation \<Rightarrow> db \<Rightarrow> (http_error + organisation) \<times> db" where
  "create_organisation req session =
     (let organisation = \<lparr>org_id = None, org_name = co_name req\<rparr>;
          (organisation, session) = session_add_commit_organisation organisation session
      in case session_refresh_organisation organisation session of
           None \<Rightarrow> (Inl ServerError, session)
         | Some organisation \<Rightarrow> (Inr organisation, session))"

definition get_organisations :: "db \<Rightarrow> (http_error + organisation list) \<times> db" where
  "get_organisations session =
     (let organisations = session_exec_all (organisations session) select
      in (Inr organisations, session))"

definition get_organisation :: "int \<Rightarrow> db \<Rightarrow> (http_error + organisation) \<times> db" where
  "get_organisation oid session =
     (case session_get_organisation session oid of
        None \<Rightarrow> (Inl (HTTPException HTTP_404_NOT_FOUND ''Organisation not found''), session)
      | Some organisation \<Rightarrow> (Inr organisation, session))"

definition create_location :: "CreateLocation \<Rightarrow> db \<Rightarrow> (http_error + location) \<times> db" where
  "create_location req session =
     (case session_get_organisation session (cl_organisation_id req) of
        None \<Rightarrow> (Inl (HTTPException HTTP_404_NOT_FOUND ''Organisation not found''), session)
      | Some organisation \<Rightarrow>
          (let location = \<lparr>loc_id = None, loc_name = cl_name req,
                           latitude = cl_latitude req, longitude = cl_longitude req,
                           organisation_id = cl_organisation_id req\<rparr>;
               (location, session) = session_add_commit_location location session
           in case session_refresh_location location session of
                None \<Rightarrow> (Inl ServerError, session)
              | Some location \<Rightarrow> (Inr location, session)))"

text \<open>
  The bounding box is an optional 4-tuple; a 4-tuple is never empty, so the test
  \<^verbatim>\<open>if bounding_box:\<close> holds exactly when a box is given.
\<close>

type_synonym bounding_box = "real \<times> real \<times> real \<times> real"

definition get_organisation_locations ::
  "int \<Rightarrow> bounding_box option \<Rightarrow> db \<Rightarrow> (http_error + location list) \<times> db" where
  "get_organisation_locations oid bounding_box session =
     (let query = where_clause select [\<lambda>row. organisation_id row = oid];
          query =
            (case bounding_box of
               None \<Rightarrow> query
             | Some (min_lat, min_lon, max_lat, max_lon) \<Rightarrow>
                 where_clause query
                   [\<lambda>row. latitude row \<ge> min_lat,
                    \<lambda>row. latitude row \<le> max_lat,
                    \<lambda>row. longitude row \<ge> min_lon,
                    \<lambda>row. longitude row \<le> max_lon]);
          locations = session_exec_all (locations session) query
      in if locations = []
         then (Inl (HTTPException HTTP_404_NOT_FOUND
                 ''No locations found for this organisation within the specified bounding box.''),
               session)
         else (Inr locations, session))"

section \<open>The specification's reading of the location listing\<close>

text \<open>
  The rows the specification names for a listing: those of the organisation, and, with a
  bounding box (min-lat, min-lon, max-lat, max-lon), only those whose latitude lies in
  the closed interval from min-lat to max-lat and whose longitude lies in the closed
  interval from min-lon to max-lon.
\<close>

definition within_bounding_box :: "bounding_box \<Rightarrow> location \<Rightarrow> bool" where
  "within_bounding_box box row =
     (case box of (min_lat, min_lon, max_lat, max_lon) \<Rightarrow>
        min_lat \<le> latitude row \<and> latitude row \<le> max_lat \<and>
        min_lon \<le> longitude row \<and> longitude row \<le> max_lon)"

definition spec_organisation_locations :: "int \<Rightarrow> bounding_box option \<Rightarrow> db \<Rightarrow> location list" where
  "spec_organisation_locations oid bounding_box session =
     filter (\<lambda>row. organisation_id row = oid \<and>
               (case bounding_box of None \<Rightarrow> True | Some box \<Rightarrow> within_bounding_box box row))
       (locations session)"

section \<open>Sequences of requests\<close>

text \<open>
  The five routes of the router. A request leaves behind the store its handler returns,
  whatever the outcome; the stores the service can reach are those that a sequence of
  requests produces from the empty store.
\<close>

datatype request =
  Post_create CreateOrganisation
  | Get_all
  | Get_by_id int
  | Post_create_locations CreateLocation
  | Get_locations int "bounding_box option"

fun handle :: "db \<Rightarrow> request \<Rightarrow> db" where
  "handle session (Post_create req) = snd (create_organisation req session)"
| "handle session Get_all = snd (get_organisations session)"
| "handle session (Get_by_id oid) = snd (get_organisation oid session)"
| "handle session (Post_create_locations req) = snd (create_location req session)"
| "handle session (Get_locations oid bounding_box) =
     snd (get_organisation_locations oid bounding_box session)"

definition serve :: "db \<Rightarrow> request list \<Rightarrow> db" where
  "serve session requests = foldl handle session requests"

text \<open>Every location row refers to an organisation row of the store.\<close>

definition referential_integrity :: "db \<Rightarrow> bool" where
  "referential_integrity session =
     (\<forall>row \<in> set (locations session).
        \<exists>organisation \<in> set (organisations session). org_id organisation = Some (organisation_id row))"

section \<open>Example data\<close>

definition acme :: organisation where
  "acme = \<lparr>org_id = Some 1, org_name = ''Acme''\<rparr>"

definition hq :: location where
  "hq = \<lparr>loc_id = Some 1, loc_name = ''HQ'', latitude = 51.5, longitude = - 0.1,
          organisation_id = 1\<rparr>"

definition hq_request :: CreateLocation where
  "hq_request = \<lparr>cl_name = ''HQ'', cl_latitude = 51.5, cl_longitude = - 0.1,
                  cl_organisation_id = 1\<rparr>"

definition acme_db :: db where
  "acme_db = \<lparr>organisations = [acme], locations = []\<rparr>"

definition acme_hq_db :: db where
  "acme_hq_db = \<lparr>organisations = [acme], locations = [hq]\<rparr>"

section \<open>Facts about the session\<close>

lemma fold_max_bounds:
  "(a::int) \<le> fold max ids a \<and> (\<forall>i\<in>set ids. i \<le> fold max ids a)"
proof (induction ids arbitrary: a)
  case Nil
  show ?case by simp
next
  case (Cons x xs)
  have "max x a \<le> fold max xs (max x a)" and "\<forall>i\<in>set xs. i \<le> fold max xs (max x a)"
    using Cons.IH [of "max x a"] by simp_all
  then show ?case by auto
qed

lemma next_id_above: "i \<in> set ids \<Longrightarrow> i < next_id ids"
  using fold_max_bounds [of "hd ids" ids] by (auto simp: next_id_def)

lemma map_filter_member:
  "f x = Some k \<Longrightarrow> x \<in> set xs \<Longrightarrow> k \<in> set (List.map_filter f xs)"
  by (induction xs) (auto split: option.splits)

lemma find_appended_row:
  "\<forall>x\<in>set xs. \<not> P x \<Longrightarrow> P y \<Longrightarrow> find P (xs @ [y]) = Some y"
  by (induction xs) auto

lemma find_no_row: "(find P xs = None) = (\<forall>x\<in>set xs. \<not> P x)"
  by (induction xs) auto

lemma find_some_row: "find P xs = Some x \<Longrightarrow> x \<in> set xs \<and> P x"
  by (induction xs) (auto split: if_splits)

lemma organisation_key_unused:
  assumes "row \<in> set (organisations session)"
  shows "org_id row \<noteq> Some (next_id (organisation_ids session))"
proof
  assume "org_id row = Some (next_id (organisation_ids session))"
  from map_filter_member [of org_id, OF this assms]
  have "next_id (organisation_ids session) \<in> set (organisation_ids session)"
    by (simp add: organisation_ids_def)
  from next_id_above [OF this] show False by simp
qed

lemma location_key_unused:
  assumes "row \<in> set (locations session)"
  shows "loc_id row \<noteq> Some (next_id (location_ids session))"
proof
  assume "loc_id row = Some (next_id (location_ids session))"
  from map_filter_member [of loc_id, OF this assms]
  have "next_id (location_ids session) \<in> set (location_ids session)"
    by (simp add: location_ids_def)
  from next_id_above [OF this] show False by simp
qed

lemma session_get_organisation_None:
  "(session_get_organisation session k = None) =
     (\<forall>row\<in>set (organisations session). org_id row \<noteq> Some k)"
  by (simp add: session_get_organisation_def find_no_row)

lemma session_get_organisation_Some:
  "session_get_organisation session k = Some row \<Longrightarrow>
     row \<in> set (organisations session) \<and> org_id row = Some k"
  unfolding session_get_organisation_def by (rule find_some_row)

lemma session_exec_all_select: "session_exec_all table select = table"
  by (simp add: session_exec_all_def select_def)

section \<open>What each handler computes\<close>

lemma create_organisation_result:
  "create_organisation req session =
     (let row = \<lparr>org_id = Some (next_id (organisation_ids session)), org_name = co_name req\<rparr>
      in (Inr row, session\<lparr>organisations := organisations session @ [row]\<rparr>))"
proof -
  let ?row = "\<lparr>org_id = Some (next_id (organisation_ids session)), org_name = co_name req\<rparr>"
  have "find (\<lambda>r. org_id r = Some (next_id (organisation_ids session)))
          (organisations session @ [?row]) = Some ?row"
    by (rule find_appended_row) (auto dest: organisation_key_unused)
  then show ?thesis
    by (simp add: create_organisation_def session_add_commit_organisation_def
        session_refresh_organisation_def session_get_organisation_def Let_def)
qed

lemma create_location_result:
  "create_location req session =
     (case session_get_organisation session (cl_organisation_id req) of
        None \<Rightarrow> (Inl (HTTPException 404 ''Organisation not found''), session)
      | Some organisation \<Rightarrow>
         (let row = \<lparr>loc_id = Some (next_id (location_ids session)), loc_name = cl_name req,
                     latitude = cl_latitude req, longitude = cl_longitude req,
                     organisation_id = cl_organisation_id req\<rparr>
          in (Inr row, session\<lparr>locations := locations session @ [row]\<rparr>)))"
proof -
  let ?row = "\<lparr>loc_id = Some (next_id (location_ids session)), loc_name = cl_name req,
                     latitude = cl_latitude req, longitude = cl_longitude req,
                     organisation_id = cl_organisation_id req\<rparr>"
  have "find (\<lambda>r. loc_id r = Some (next_id (location_ids session)))
          (locations session @ [?row]) = Some ?row"
    by (rule find_appended_row) (auto dest: location_key_unused)
  then show ?thesis
    by (simp add: create_location_def session_add_commit_location_def HTTP_404_NOT_FOUND_def
        session_refresh_location_def session_get_location_def Let_def split: option.splits)
qed

lemma get_organisation_locations_result:
  "get_organisation_locations oid bounding_box session =
     (if spec_organisation_locations oid bounding_box session = []
      then (Inl (HTTPException 404
              ''No locations found for this organisation within the specified bounding box.''),
            session)
      else (Inr (spec_organisation_locations oid bounding_box session), session))"
proof -
  have "session_exec_all (locations session)
          (case bounding_box of
             None \<Rightarrow> where_clause select [\<lambda>row. organisation_id row = oid]
           | Some (min_lat, min_lon, max_lat, max_lon) \<Rightarrow>
               where_clause (where_clause select [\<lambda>row. organisation_id row = oid])
                 [\<lambda>row. latitude row \<ge> min_lat, \<lambda>row. latitude row \<le> max_lat,
                  \<lambda>row. longitude row \<ge> min_lon, \<lambda>row. longitude row \<le> max_lon])
        = spec_organisation_locations oid bounding_box session"
    by (cases bounding_box)
      (auto simp: session_exec_all_def where_clause_def select_def
        spec_organisation_locations_def within_bounding_box_def intro: filter_cong)
  then show ?thesis
    by (simp add: get_organisation_locations_def Let_def HTTP_404_NOT_FOUND_def)
qed

lemma handle_organisations:
  "\<exists>new. organisations (handle session request) = organisations session @ new"
  by (cases request)
    (auto simp: create_organisation_result create_location_result get_organisations_def
      get_organisation_def get_organisation_locations_result Let_def split: option.splits)

lemma handle_referential_integrity:
  assumes "referential_integrity session"
  shows "referential_integrity (handle session request)"
proof (cases request)
  case (Post_create req)
  with assms show ?thesis
    by (auto simp: create_organisation_result referential_integrity_def Let_def)
next
  case Get_all
  with assms show ?thesis by (simp add: get_organisations_def Let_def)
next
  case (Get_by_id oid)
  with assms show ?thesis by (simp add: get_organisation_def split: option.splits)
next
  case (Post_create_locations req)
  show ?thesis
  proof (cases "session_get_organisation session (cl_organisation_id req)")
    case None
    with assms Post_create_locations show ?thesis by (simp add: create_location_result)
  next
    case (Some organisation)
    from session_get_organisation_Some [OF this] assms Post_create_locations Some
    show ?thesis
      by (auto simp: create_location_result referential_integrity_def Let_def)
  qed
next
  case (Get_locations oid bounding_box)
  with assms show ?thesis by (simp add: get_organisation_locations_result)
qed

lemma serve_referential_integrity:
  "referential_integrity session \<Longrightarrow> referential_integrity (serve session requests)"
  unfolding serve_def
  by (induction requests arbitrary: session) (simp_all add: handle_referential_integrity)

section \<open>The claims\<close>

text \<open>
  C1. When no organisation row has the identifier named in the request,
  \<open>create_location\<close> fails with the 404 error ``Organisation not found'' and leaves the
  store as it was: no location row is written.
\<close>

theorem create_location_unknown_organisation:
  assumes "\<forall>row\<in>set (organisations session). org_id row \<noteq> Some (cl_organisation_id req)"
  shows "create_location req session =
           (Inl (HTTPException 404 ''Organisation not found''), session)"
proof -
  from assms have "session_get_organisation session (cl_organisation_id req) = None"
    by (simp add: session_get_organisation_None)
  then show ?thesis by (simp add: create_location_result)
qed

theorem create_location_unknown_organisation_witness:
  "create_location (hq_request\<lparr>cl_organisation_id := 2\<rparr>) acme_hq_db =
     (Inl (HTTPException 404 ''Organisation not found''), acme_hq_db)
   \<and> locations acme_hq_db = [hq]"
  using create_location_unknown_organisation [of acme_hq_db "hq_request\<lparr>cl_organisation_id := 2\<rparr>"]
  by (simp add: acme_hq_db_def acme_def hq_request_def)

text \<open>
  C2, as amended. For a store, an organisation identifier and an optional bounding box,
  \<open>get_organisation_locations\<close> returns exactly the location rows of that organisation
  whose latitude and longitude lie in the closed intervals of the box (all rows of the
  organisation without a box), in storage order, when there is at least one such row;
  when there is none it raises the 404 error and returns no list. The store is unchanged.
\<close>

theorem get_organisation_locations_rows:
  "get_organisation_locations oid (Some (min_lat, min_lon, max_lat, max_lon)) session =
     (let rows = filter (\<lambda>row. organisation_id row = oid
                    \<and> min_lat \<le> latitude row \<and> latitude row \<le> max_lat
                    \<and> min_lon \<le> longitude row \<and> longitude row \<le> max_lon)
                  (locations session)
      in if rows = []
         then (Inl (HTTPException 404
                 ''No locations found for this organisation within the specified bounding box.''),
               session)
         else (Inr rows, session))
   \<and> get_organisation_locations oid None session =
     (let rows = filter (\<lambda>row. organisation_id row = oid) (locations session)
      in if rows = []
         then (Inl (HTTPException 404
                 ''No locations found for this organisation within the specified bounding box.''),
               session)
         else (Inr rows, session))
   \<and> get_organisation_locations oid bounding_box session =
     (if spec_organisation_locations oid bounding_box session = []
      then (Inl (HTTPException 404
              ''No locations found for this organisation within the specified bounding box.''),
            session)
      else (Inr (spec_organisation_locations oid bounding_box session), session))"
proof -
  have box: "spec_organisation_locations oid (Some (min_lat, min_lon, max_lat, max_lon)) session =
      filter (\<lambda>row. organisation_id row = oid
                \<and> min_lat \<le> latitude row \<and> latitude row \<le> max_lat
                \<and> min_lon \<le> longitude row \<and> longitude row \<le> max_lon)
        (locations session)"
    by (simp add: spec_organisation_locations_def within_bounding_box_def)
  have no_box: "spec_organisation_locations oid None session =
      filter (\<lambda>row. organisation_id row = oid) (locations session)"
    by (simp add: spec_organisation_locations_def)
  have "get_organisation_locations oid (Some (min_lat, min_lon, max_lat, max_lon)) session =
     (let rows = filter (\<lambda>row. organisation_id row = oid
                    \<and> min_lat \<le> latitude row \<and> latitude row \<le> max_lat
                    \<and> min_lon \<le> longitude row \<and> longitude row \<le> max_lon)
                  (locations session)
      in if rows = []
         then (Inl (HTTPException 404
                 ''No locations found for this organisation within the specified bounding box.''),
               session)
         else (Inr rows, session))"
    unfolding get_organisation_locations_result box by (simp add: Let_def)
  moreover have "get_organisation_locations oid None session =
     (let rows = filter (\<lambda>row. organisation_id row = oid) (locations session)
      in if rows = []
         then (Inl (HTTPException 404
                 ''No locations found for this organisation within the specified bounding box.''),
               session)
         else (Inr rows, session))"
    unfolding get_organisation_locations_result no_box by (simp add: Let_def)
  ultimately show ?thesis
    using get_organisation_locations_result [of oid bounding_box session] by blast
qed

theorem get_organisation_locations_rows_witness:
  "get_organisation_locations 1 (Some (51, - 1, 52, 0)) acme_hq_db = (Inr [hq], acme_hq_db)
   \<and> get_organisation_locations 1 None acme_hq_db = (Inr [hq], acme_hq_db)"
proof -
  have "locations acme_hq_db = [hq]"
    by (simp add: acme_hq_db_def)
  with get_organisation_locations_rows [of 1 51 "- 1" 52 0 acme_hq_db None]
  show ?thesis by (simp add: hq_def Let_def)
qed

text \<open>
  C2 as stated fails where no row matches: with the one location at (51.5, -0.1) and the
  box (0, 0, 1, 1) the rows in the box are the empty list, and the handler raises instead
  of returning it.
\<close>

theorem get_organisation_locations_empty_counterexample:
  "spec_organisation_locations 1 (Some (0, 0, 1, 1)) acme_hq_db = []
   \<and> fst (get_organisation_locations 1 (Some (0, 0, 1, 1)) acme_hq_db)
       \<noteq> Inr (spec_organisation_locations 1 (Some (0, 0, 1, 1)) acme_hq_db)
   \<and> fst (get_organisation_locations 1 (Some (0, 0, 1, 1)) acme_hq_db) =
       Inl (HTTPException 404
         ''No locations found for this organisation within the specified bounding box.'')"
  by (simp add: get_organisation_locations_def Let_def where_clause_def select_def
      session_exec_all_def HTTP_404_NOT_FOUND_def spec_organisation_locations_def
      within_bounding_box_def acme_hq_db_def hq_def)

text \<open>
  C3. \<open>get_organisation_locations\<close> raises exactly when the filtered list is empty, and
  the error is then always the same 404. The organisations table plays no part in the
  outcome: there is no existence check. So the same error is raised for an identifier
  that no organisation has (a store with referential integrity has no location row for
  it) and for an organisation none of whose locations match.
\<close>

theorem get_organisation_locations_404:
  "((\<exists>e. fst (get_organisation_locations oid bounding_box session) = Inl e) \<longleftrightarrow>
      spec_organisation_locations oid bounding_box session = [])
   \<and> (\<forall>e. fst (get_organisation_locations oid bounding_box session) = Inl e \<longrightarrow>
         e = HTTPException 404
               ''No locations found for this organisation within the specified bounding box.'')
   \<and> fst (get_organisation_locations oid bounding_box (session\<lparr>organisations := others\<rparr>)) =
       fst (get_organisation_locations oid bounding_box session)
   \<and> (referential_integrity session \<and>
        (\<forall>row\<in>set (organisations session). org_id row \<noteq> Some oid) \<longrightarrow>
        get_organisation_locations oid bounding_box session =
          (Inl (HTTPException 404
             ''No locations found for this organisation within the specified bounding box.''),
           session))
   \<and> ((\<exists>row\<in>set (organisations session). org_id row = Some oid) \<and>
        spec_organisation_locations oid bounding_box session = [] \<longrightarrow>
        get_organisation_locations oid bounding_box session =
          (Inl (HTTPException 404
             ''No locations found for this organisation within the specified bounding box.''),
           session))"
proof -
  have dangling: "spec_organisation_locations oid bounding_box session = []"
    if "referential_integrity session"
      and "\<forall>row\<in>set (organisations session). org_id row \<noteq> Some oid"
  proof -
    from that have "\<forall>row\<in>set (locations session). organisation_id row \<noteq> oid"
      unfolding referential_integrity_def by blast
    then show ?thesis
      by (simp add: spec_organisation_locations_def filter_empty_conv)
  qed
  have same: "spec_organisation_locations oid bounding_box (session\<lparr>organisations := others\<rparr>) =
      spec_organisation_locations oid bounding_box session"
    by (simp add: spec_organisation_locations_def)
  show ?thesis
    using dangling by (simp add: get_organisation_locations_result same)
qed

theorem get_organisation_locations_404_witness:
  "get_organisation_locations 7 None acme_hq_db =
     (Inl (HTTPException 404
        ''No locations found for this organisation within the specified bounding box.''),
      acme_hq_db)
   \<and> get_organisation_locations 1 (Some (0, 0, 1, 1)) acme_hq_db =
     (Inl (HTTPException 404
        ''No locations found for this organisation within the specified bounding box.''),
      acme_hq_db)
   \<and> referential_integrity acme_hq_db"
proof -
  have ri: "referential_integrity acme_hq_db"
    by (simp add: referential_integrity_def acme_hq_db_def acme_def hq_def)
  have absent: "\<forall>row\<in>set (organisations acme_hq_db). org_id row \<noteq> Some 7"
    by (simp add: acme_hq_db_def acme_def)
  have present: "\<exists>row\<in>set (organisations acme_hq_db). org_id row = Some 1"
    by (simp add: acme_hq_db_def acme_def)
  have none: "spec_organisation_locations 1 (Some (0, 0, 1, 1)) acme_hq_db = []"
    by (simp add: spec_organisation_locations_def within_bounding_box_def acme_hq_db_def hq_def)
  from get_organisation_locations_404 [of 7 None acme_hq_db "[]"] ri absent
  have a: "get_organisation_locations 7 None acme_hq_db =
     (Inl (HTTPException 404
        ''No locations found for this organisation within the specified bounding box.''),
      acme_hq_db)"
    by blast
  from get_organisation_locations_404 [of 1 "Some (0, 0, 1, 1)" acme_hq_db "[]"] present none
  have b: "get_organisation_locations 1 (Some (0, 0, 1, 1)) acme_hq_db =
     (Inl (HTTPException 404
        ''No locations found for this organisation within the specified bounding box.''),
      acme_hq_db)"
    by blast
  from a b ri show ?thesis by blast
qed

text \<open>
  C4. In a store that holds the organisation of the request and no location of that
  organisation yet, \<open>create_location\<close> followed by \<open>get_organisation_locations\<close> without
  a bounding box returns exactly the one row just created, with the name, latitude,
  longitude and organisation reference of the request.
\<close>

theorem create_location_then_list:
  assumes "\<exists>organisation\<in>set (organisations session).
             org_id organisation = Some (cl_organisation_id req)"
    and "\<forall>row\<in>set (locations session). organisation_id row \<noteq> cl_organisation_id req"
  shows "\<exists>row. fst (create_location req session) = Inr row
           \<and> fst (get_organisation_locations (cl_organisation_id req) None
                    (snd (create_location req session))) = Inr [row]
           \<and> loc_name row = cl_name req \<and> latitude row = cl_latitude req
           \<and> longitude row = cl_longitude req
           \<and> organisation_id row = cl_organisation_id req"
proof -
  from assms(1) obtain organisation
    where "session_get_organisation session (cl_organisation_id req) = Some organisation"
    using session_get_organisation_None [of session "cl_organisation_id req"] by fastforce
  moreover from assms(2)
  have "filter (\<lambda>row. organisation_id row = cl_organisation_id req) (locations session) = []"
    by (simp add: filter_empty_conv)
  ultimately show ?thesis
    by (simp add: create_location_result get_organisation_locations_result
        spec_organisation_locations_def Let_def)
qed

theorem create_location_then_list_witness:
  "fst (create_location hq_request acme_db) = Inr hq
   \<and> fst (get_organisation_locations 1 None (snd (create_location hq_request acme_db))) =
       Inr [hq]"
proof -
  have org: "\<exists>organisation\<in>set (organisations acme_db).
      org_id organisation = Some (cl_organisation_id hq_request)"
    by (simp add: acme_db_def acme_def hq_request_def)
  have none: "\<forall>row\<in>set (locations acme_db). organisation_id row \<noteq> cl_organisation_id hq_request"
    by (simp add: acme_db_def)
  have made: "fst (create_location hq_request acme_db) = Inr hq"
    by (simp add: create_location_result session_get_organisation_def acme_db_def acme_def
        hq_request_def hq_def location_ids_def next_id_def Let_def)
  from create_location_then_list [OF org none] made show ?thesis
    by (auto simp: hq_request_def)
qed

text \<open>
  C5. \<open>get_organisation\<close> returns a row of the table with the requested identifier when
  there is one (the row, identifiers being primary keys), fails with the 404 error
  carrying the message ``Organisation not found'' when there is none, and leaves the
  store as it was in both cases.
\<close>

theorem get_organisation_found_or_404:
  "((\<exists>row\<in>set (organisations session). org_id row = Some oid) \<longrightarrow>
      (\<exists>row\<in>set (organisations session). org_id row = Some oid
         \<and> get_organisation oid session = (Inr row, session)))
   \<and> ((\<forall>row\<in>set (organisations session). org_id row \<noteq> Some oid) \<longrightarrow>
        get_organisation oid session =
          (Inl (HTTPException 404 ''Organisation not found''), session))
   \<and> snd (get_organisation oid session) = session"
proof (cases "session_get_organisation session oid")
  case None
  then show ?thesis
    using session_get_organisation_None [of session oid]
    by (simp add: get_organisation_def HTTP_404_NOT_FOUND_def)
next
  case (Some row)
  from session_get_organisation_Some [OF Some] Some show ?thesis
    by (auto simp: get_organisation_def)
qed

theorem get_organisation_found_or_404_witness:
  "get_organisation 1 acme_hq_db = (Inr acme, acme_hq_db)
   \<and> get_organisation 999999999 acme_hq_db =
       (Inl (HTTPException 404 ''Organisation not found''), acme_hq_db)"
proof -
  have absent: "\<forall>row\<in>set (organisations acme_hq_db). org_id row \<noteq> Some 999999999"
    by (simp add: acme_hq_db_def acme_def)
  have present: "\<exists>row\<in>set (organisations acme_hq_db). org_id row = Some 1"
    by (simp add: acme_hq_db_def acme_def)
  have only: "\<forall>row\<in>set (organisations acme_hq_db). row = acme"
    by (simp add: acme_hq_db_def)
  from get_organisation_found_or_404 [of acme_hq_db 1] present only
  have "get_organisation 1 acme_hq_db = (Inr acme, acme_hq_db)"
    by fastforce
  moreover from get_organisation_found_or_404 [of acme_hq_db 999999999] absent
  have "get_organisation 999999999 acme_hq_db =
       (Inl (HTTPException 404 ''Organisation not found''), acme_hq_db)"
    by blast
  ultimately show ?thesis by blast
qed

text \<open>
  C6. For every store and every name, \<open>create_organisation\<close> succeeds: it appends exactly
  one organisation row, with the name of the request and an identifier that is set and
  that no earlier row has, and returns that row; \<open>get_organisation\<close> with that
  identifier then returns the same row, so the same name. Locations are untouched.
\<close>

theorem create_organisation_persists:
  "\<exists>k. create_organisation req session =
          (Inr \<lparr>org_id = Some k, org_name = co_name req\<rparr>,
           session\<lparr>organisations :=
             organisations session @ [\<lparr>org_id = Some k, org_name = co_name req\<rparr>]\<rparr>)
      \<and> (\<forall>row\<in>set (organisations session). org_id row \<noteq> Some k)
      \<and> fst (get_organisation k (snd (create_organisation req session))) =
          Inr \<lparr>org_id = Some k, org_name = co_name req\<rparr>"
proof -
  let ?k = "next_id (organisation_ids session)"
  let ?row = "\<lparr>org_id = Some ?k, org_name = co_name req\<rparr>"
  have fresh: "\<forall>row\<in>set (organisations session). org_id row \<noteq> Some ?k"
    by (auto dest: organisation_key_unused)
  then have "find (\<lambda>r. org_id r = Some ?k) (organisations session @ [?row]) = Some ?row"
    by (intro find_appended_row) simp_all
  then have "fst (get_organisation ?k (snd (create_organisation req session))) = Inr ?row"
    by (simp add: create_organisation_result get_organisation_def
        session_get_organisation_def Let_def)
  with fresh show ?thesis
    by (intro exI [of _ ?k]) (simp add: create_organisation_result Let_def)
qed

theorem create_organisation_persists_witness:
  "create_organisation \<lparr>co_name = ''Acme''\<rparr> acme_db =
     (Inr \<lparr>org_id = Some 2, org_name = ''Acme''\<rparr>,
      \<lparr>organisations = [acme, \<lparr>org_id = Some 2, org_name = ''Acme''\<rparr>], locations = []\<rparr>)
   \<and> fst (create_organisation \<lparr>co_name = []\<rparr> empty_db) = Inr \<lparr>org_id = Some 1, org_name = []\<rparr>"
  using create_organisation_persists [of "\<lparr>co_name = ''Acme''\<rparr>" acme_db]
  by (simp add: create_organisation_result organisation_ids_def next_id_def acme_db_def
      acme_def empty_db_def Let_def)

text \<open>
  C7. \<open>get_organisations\<close> returns every organisation row of the store, in storage
  order, and never an error; for a store without organisations the result is the empty
  list.
\<close>

theorem get_organisations_all:
  "get_organisations session = (Inr (organisations session), session)
   \<and> fst (get_organisations (session\<lparr>organisations := []\<rparr>)) = Inr []"
  by (simp add: get_organisations_def session_exec_all_select)

theorem get_organisations_all_witness:
  "get_organisations empty_db = (Inr [], empty_db)
   \<and> get_organisations acme_hq_db = (Inr [acme], acme_hq_db)"
  using get_organisations_all [of empty_db] get_organisations_all [of acme_hq_db]
  by (simp add: empty_db_def acme_hq_db_def)

text \<open>
  C8. Neither \<open>get_organisations\<close> nor \<open>get_organisation\<close> changes the store, so a second
  run on the store the first run left behind has the same outcome: the same rows or the
  same error.
\<close>

theorem reads_repeatable:
  "snd (get_organisations session) = session
   \<and> fst (get_organisations (snd (get_organisations session))) = fst (get_organisations session)
   \<and> snd (get_organisation oid session) = session
   \<and> fst (get_organisation oid (snd (get_organisation oid session))) =
       fst (get_organisation oid session)"
proof -
  have all: "snd (get_organisations session) = session"
    by (simp add: get_organisations_def)
  have one: "snd (get_organisation oid session) = session"
    by (simp add: get_organisation_def split: option.splits)
  show ?thesis by (simp add: all one)
qed

theorem reads_repeatable_witness:
  "fst (get_organisations (snd (get_organisations acme_db))) = Inr [acme]
   \<and> fst (get_organisation 1 (snd (get_organisation 1 acme_db))) = Inr acme
   \<and> fst (get_organisation 2 (snd (get_organisation 2 acme_db))) =
       Inl (HTTPException 404 ''Organisation not found'')"
proof -
  have "fst (get_organisations acme_db) = Inr [acme]"
    by (simp add: get_organisations_def session_exec_all_select acme_db_def)
  moreover have "fst (get_organisation 1 acme_db) = Inr acme"
    by (simp add: get_organisation_def session_get_organisation_def acme_db_def acme_def)
  moreover have "fst (get_organisation 2 acme_db) =
      Inl (HTTPException 404 ''Organisation not found'')"
    by (simp add: get_organisation_def session_get_organisation_def acme_db_def acme_def
        HTTP_404_NOT_FOUND_def)
  ultimately show ?thesis
    using reads_repeatable [of acme_db 1] reads_repeatable [of acme_db 2] by simp
qed

text \<open>
  C9. When the store holds the organisation of the request, \<open>create_location\<close> succeeds
  for every latitude and longitude, also outside [-90, 90] and [-180, 180]: it appends
  one location row carrying exactly the coordinates of the request and returns it.
\<close>

theorem create_location_any_coordinates:
  assumes "\<exists>organisation\<in>set (organisations session).
             org_id organisation = Some (cl_organisation_id req)"
  shows "\<exists>k. create_location req session =
           (Inr \<lparr>loc_id = Some k, loc_name = cl_name req, latitude = cl_latitude req,
                 longitude = cl_longitude req, organisation_id = cl_organisation_id req\<rparr>,
            session\<lparr>locations := locations session @
              [\<lparr>loc_id = Some k, loc_name = cl_name req, latitude = cl_latitude req,
                longitude = cl_longitude req, organisation_id = cl_organisation_id req\<rparr>]\<rparr>)"
proof -
  from assms obtain organisation
    where "session_get_organisation session (cl_organisation_id req) = Some organisation"
    using session_get_organisation_None [of session "cl_organisation_id req"] by fastforce
  then show ?thesis
    by (simp add: create_location_result Let_def)
qed

theorem create_location_any_coordinates_witness:
  "create_location (hq_request\<lparr>cl_latitude := 1000, cl_longitude := - 500\<rparr>) acme_db =
     (Inr (hq\<lparr>latitude := 1000, longitude := - 500\<rparr>),
      acme_db\<lparr>locations := [hq\<lparr>latitude := 1000, longitude := - 500\<rparr>]\<rparr>)"
proof -
  have "\<exists>organisation\<in>set (organisations acme_db).
      org_id organisation =
        Some (cl_organisation_id (hq_request\<lparr>cl_latitude := 1000, cl_longitude := - 500\<rparr>))"
    by (simp add: acme_db_def acme_def hq_request_def)
  from create_location_any_coordinates [OF this] show ?thesis
    by (simp add: create_location_result session_get_organisation_def acme_db_def acme_def
        hq_request_def hq_def location_ids_def next_id_def Let_def)
qed

text \<open>
  C10. Referential integrity holds in every store that a sequence of requests to the
  five handlers produces from the empty store: every location row refers to the
  identifier of an organisation row. Each handler keeps it, and no handler removes or
  changes an organisation row.
\<close>

theorem referential_integrity_reachable:
  "referential_integrity (serve empty_db requests)
   \<and> (referential_integrity session \<longrightarrow> referential_integrity (handle session request))
   \<and> (\<exists>new. organisations (handle session request) = organisations session @ new)"
proof -
  have "referential_integrity empty_db"
    by (simp add: referential_integrity_def empty_db_def)
  then have "referential_integrity (serve empty_db requests)"
    by (rule serve_referential_integrity)
  then show ?thesis
    by (simp add: handle_referential_integrity handle_organisations)
qed

theorem referential_integrity_reachable_witness:
  "serve empty_db [Post_create \<lparr>co_name = ''Acme''\<rparr>, Post_create_locations hq_request,
      Post_create_locations (hq_request\<lparr>cl_organisation_id := 9\<rparr>), Get_locations 1 None] =
     acme_hq_db
   \<and> referential_integrity acme_hq_db"
proof -
  have run: "serve empty_db [Post_create \<lparr>co_name = ''Acme''\<rparr>, Post_create_locations hq_request,
      Post_create_locations (hq_request\<lparr>cl_organisation_id := 9\<rparr>), Get_locations 1 None] =
     acme_hq_db"
    by (simp add: serve_def create_organisation_result create_location_result
        get_organisation_locations_result session_get_organisation_def
        spec_organisation_locations_def organisation_ids_def location_ids_def next_id_def
        empty_db_def acme_hq_db_def acme_def hq_def hq_request_def Let_def)
  from referential_integrity_reachable
    [of "[Post_create \<lparr>co_name = ''Acme''\<rparr>, Post_create_locations hq_request,
      Post_create_locations (hq_request\<lparr>cl_organisation_id := 9\<rparr>), Get_locations 1 None]"]
  show ?thesis by (simp add: run)
qed

end
